theory Spec2Isabelle
  imports Main "HOL-Library.Word" "HOL-Library.Sublist"
begin

section \<open>The OCR key bundle of core/store/models/ocrkey/private\_key.go\<close>

text \<open>
  The file private\_key.go builds, renders, encrypts and decrypts a bundle of three
  keys. Its own code is glue around Go libraries: crypto/rand, go-ethereum's secp256k1
  and keystore, crypto/ed25519, x/crypto/curve25519, crypto/sha256 and encoding/json.
  The glue is embedded function by function, under the names of the source. The
  libraries are not part of the repository; every function below takes them as a record
  \<open>lib\<close> of functions, and a theorem that needs a property of a library says so in a
  named contract. Go's \<open>(value, err)\<close> results are sums (\<open>Inl\<close> the error) where the
  source drops the value on error, and pairs where it reads the value anyway.
\<close>

subsection \<open>Bytes, fixed arrays, strings\<close>

type_synonym byte = "8 word"
type_synonym bytes = "byte list"

text \<open>Go's \<open>[32]byte\<close> (\<open>curve25519.ScalarSize\<close>, \<open>PointSize\<close> and
  \<open>sha256.Size\<close> are all 32).\<close>

typedef bytes32 = "{bs :: byte list. length bs = 32}"
  by (rule exI [of _ "replicate 32 0"]) simp

setup_lifting type_definition_bytes32

text \<open>Go's builtin \<open>copy(dst, src)\<close>: the first \<open>min (len dst) (len src)\<close> elements
  of \<open>dst\<close> are overwritten, the rest stay.\<close>

definition copy :: "bytes \<Rightarrow> bytes \<Rightarrow> bytes" where
  "copy dst src = take (length dst) src @ drop (length src) dst"

text \<open>A freshly declared \<open>var a [32]byte\<close>, and \<open>copy(a[:], src)\<close> on an array.\<close>

lift_definition zero32 :: bytes32 is "replicate 32 0"
  by simp

lift_definition copy32 :: "bytes32 \<Rightarrow> bytes \<Rightarrow> bytes32" is copy
  by (simp add: copy_def)

text \<open>The conversion \<open>[]byte(s)\<close> of a Go string, which is a sequence of bytes.\<close>

definition string_to_bytes :: "string \<Rightarrow> bytes" where
  "string_to_bytes s = map of_char s"

text \<open>\<open>hex.EncodeToString\<close>: two characters of the table per byte, high nibble first.\<close>

definition hextable :: string where
  "hextable = ''0123456789abcdef''"

definition hex_EncodeToString :: "bytes \<Rightarrow> string" where
  "hex_EncodeToString src =
     concat (map (\<lambda>v. [hextable ! (unat v div 16), hextable ! (unat v mod 16)]) src)"

text \<open>\<open>(*big.Int).Bytes\<close>: the absolute value, big-endian, without leading zeros.\<close>

fun nat_to_be :: "nat \<Rightarrow> bytes" where
  "nat_to_be n = (if n = 0 then [] else nat_to_be (n div 256) @ [of_nat (n mod 256)])"

declare nat_to_be.simps [simp del]

definition big_Bytes :: "int \<Rightarrow> bytes" where
  "big_Bytes i = nat_to_be (nat \<bar>i\<bar>)"

subsection \<open>Errors\<close>

text \<open>An error value is one a library made (\<open>Err\<close>, by its message), one the source
  wrapped with \<open>errors.Wrapf\<close>, or the run-time panic of reading through a nil
  pointer.\<close>

datatype error = Err string | Wrapf error string | NilPointerPanic

text \<open>\<open>keystore.ErrDecrypt\<close>, go-ethereum's error for a MAC that does not match.\<close>

definition ErrDecrypt :: error where
  "ErrDecrypt = Err ''could not decrypt key with given password''"

subsection \<open>The data of the source\<close>

datatype elliptic_Curve = secp256k1_S256

text \<open>\<open>var curve = secp256k1.S256()\<close>\<close>

definition curve :: elliptic_Curve where
  "curve = secp256k1_S256"

text \<open>\<open>ecdsa.PublicKey\<close> and \<open>ecdsa.PrivateKey\<close> (which embeds it). \<open>Curve\<close> is an
  interface value and \<open>X\<close>, \<open>Y\<close>, \<open>D\<close> are \<open>*big.Int\<close>: each may be nil.\<close>

record ecdsa_PublicKey =
  Curve :: "elliptic_Curve option"
  X :: "int option"
  Y :: "int option"

record ecdsa_PrivateKey = ecdsa_PublicKey +
  D :: "int option"

type_synonym onChainPrivateKey = ecdsa_PrivateKey
type_synonym offChainPrivateKey = bytes

text \<open>The bundle. The three pointers are set by every function of the file that builds a
  bundle and the fields are unexported, so they are modelled as always present.\<close>

record OCRPrivateKey =
  ID :: string
  onChainSigning :: onChainPrivateKey
  offChainSigning :: offChainPrivateKey
  offChainEncryption :: bytes32

record EncryptedOCRPrivateKey =
  ID :: string
  OnChainSigningAddress :: bytes
  OffChainPublicKey :: bytes
  EncryptedPrivKeys :: bytes
  CreatedAt :: int
  UpdatedAt :: int

record ocrPrivateKeyRawData =
  EcdsaX :: int
  EcdsaY :: int
  EcdsaD :: int
  Ed25519PrivKey :: bytes
  OffChainEncryption :: bytes32

record scryptParams =
  N :: int
  P :: int

subsection \<open>The libraries, as parameters\<close>

text \<open>
  \<open>'r\<close> is the state of \<open>crypto/rand.Reader\<close>, \<open>'cj\<close> is \<open>keystore.CryptoJSON\<close>.
  \<^item> \<open>rand_Int r max\<close> is \<open>crypto/rand.Int(reader, max)\<close>;
  \<^item> \<open>reader_Read r n\<close> is \<open>reader.Read(buf)\<close> on a buffer of \<open>n\<close> bytes: the bytes
    written and the error;
  \<^item> \<open>S256_N\<close> is \<open>crypto.S256().Params().N\<close>; \<open>ScalarBaseMult\<close> is the curve's;
  \<^item> \<open>ed25519_GenerateKey\<close> returns the public and the private key;
  \<^item> \<open>X25519 scalar point\<close> and \<open>Basepoint\<close> are curve25519's;
  \<^item> \<open>json_Marshal_raw\<close>, \<open>json_Unmarshal_raw\<close> are \<open>json.Marshal\<close> and
    \<open>json.Unmarshal\<close> at the type \<open>ocrPrivateKeyRawData\<close>, \<open>json_Marshal_cj\<close> and
    \<open>json_Unmarshal_cj\<close> at \<open>keystore.CryptoJSON\<close>;
  \<^item> \<open>EncryptDataV3 data auth n p r\<close> and \<open>DecryptDataV3 cj auth\<close> are keystore's (the
    first draws its salt and IV from the reader);
  \<^item> \<open>onChain_Address\<close> and \<open>offChain_PublicKey\<close> are the methods \<open>Address()\<close> of
    \<open>onChainPrivateKey\<close> and \<open>PublicKey()\<close> of \<open>offChainPrivateKey\<close>, which this
    package declares in other files; \<open>fmt_Address\<close> and \<open>fmt_OffChainPublicKey\<close> are
    what the verb \<open>%s\<close> prints for their results.
\<close>

record ('r, 'cj) lib =
  rand_Int :: "'r \<Rightarrow> int \<Rightarrow> (error + int) \<times> 'r"
  reader_Read :: "'r \<Rightarrow> nat \<Rightarrow> (bytes \<times> error option) \<times> 'r"
  S256_N :: int
  ScalarBaseMult :: "bytes \<Rightarrow> int option \<times> int option"
  ed25519_GenerateKey :: "'r \<Rightarrow> (error + bytes \<times> bytes) \<times> 'r"
  X25519 :: "bytes \<Rightarrow> bytes \<Rightarrow> bytes \<times> error option"
  Basepoint :: bytes
  sha256_Sum256 :: "bytes \<Rightarrow> bytes32"
  json_Marshal_raw :: "ocrPrivateKeyRawData \<Rightarrow> error + bytes"
  json_Unmarshal_raw :: "bytes \<Rightarrow> error + ocrPrivateKeyRawData"
  json_Marshal_cj :: "'cj \<Rightarrow> error + bytes"
  json_Unmarshal_cj :: "bytes \<Rightarrow> error + 'cj"
  EncryptDataV3 :: "bytes \<Rightarrow> bytes \<Rightarrow> int \<Rightarrow> int \<Rightarrow> 'r \<Rightarrow> (error + 'cj) \<times> 'r"
  DecryptDataV3 :: "'cj \<Rightarrow> string \<Rightarrow> error + bytes"
  StandardScryptN :: int
  StandardScryptP :: int
  onChain_Address :: "onChainPrivateKey \<Rightarrow> bytes"
  offChain_PublicKey :: "offChainPrivateKey \<Rightarrow> bytes"
  fmt_Address :: "bytes \<Rightarrow> string"
  fmt_OffChainPublicKey :: "bytes \<Rightarrow> string"

subsection \<open>The functions of the source\<close>

definition defaultScryptParams :: "('r, 'cj) lib \<Rightarrow> scryptParams" where
  "defaultScryptParams lib = \<lparr>N = StandardScryptN lib, P = StandardScryptP lib\<rparr>"

text \<open>\<open>adulteratedPassword\<close>: the type of key is put in front of the password.\<close>

definition adulteratedPassword :: "string \<Rightarrow> string" where
  "adulteratedPassword auth = (let s = ''ocrkey'' @ auth in s)"

text \<open>\<open>MarshalJSON\<close> reads through the three \<open>*big.Int\<close>: a nil one panics.\<close>

definition MarshalJSON :: "('r, 'cj) lib \<Rightarrow> OCRPrivateKey \<Rightarrow> error + bytes" where
  "MarshalJSON lib pk =
     (case (X (onChainSigning pk), Y (onChainSigning pk), D (onChainSigning pk)) of
        (Some x, Some y, Some d) \<Rightarrow>
          (let rawKeyData = \<lparr>EcdsaX = x, EcdsaY = y, EcdsaD = d,
                 Ed25519PrivKey = offChainSigning pk,
                 OffChainEncryption = offChainEncryption pk\<rparr>
           in json_Marshal_raw lib rawKeyData)
      | _ \<Rightarrow> Inl NilPointerPanic)"

text \<open>\<open>UnmarshalJSON\<close> overwrites the three key fields of its receiver and leaves the
  \<open>ID\<close>; \<open>id0\<close> is the receiver's \<open>ID\<close> before the call. The public key is built without
  a \<open>Curve\<close>.\<close>

definition UnmarshalJSON :: "('r, 'cj) lib \<Rightarrow> string \<Rightarrow> bytes \<Rightarrow> error + OCRPrivateKey" where
  "UnmarshalJSON lib id0 b =
     (case json_Unmarshal_raw lib b of
        Inl err \<Rightarrow> Inl err
      | Inr rawKeyData \<Rightarrow>
          (let privateKey = \<lparr>Curve = None, X = Some (EcdsaX rawKeyData),
                 Y = Some (EcdsaY rawKeyData), D = Some (EcdsaD rawKeyData)\<rparr>;
               offChainSigning' = Ed25519PrivKey rawKeyData
           in Inr \<lparr>OCRPrivateKey.ID = id0, onChainSigning = privateKey,
                 offChainSigning = offChainSigning',
                 offChainEncryption = OffChainEncryption rawKeyData\<rparr>))"

text \<open>\<open>NewOCRPrivateKey\<close>. \<open>json.Marshal(k)\<close> calls \<open>k.MarshalJSON\<close>. The reader's state
  is threaded through the three draws.\<close>

definition NewOCRPrivateKey :: "('r, 'cj) lib \<Rightarrow> 'r \<Rightarrow> (error + OCRPrivateKey) \<times> 'r" where
  "NewOCRPrivateKey lib reader =
     (case rand_Int lib reader (S256_N lib) of
        (Inl err, r1) \<Rightarrow> (Inl err, r1)
      | (Inr onChainSk, r1) \<Rightarrow>
          (let (x, y) = ScalarBaseMult lib (big_Bytes onChainSk);
               onChainPriv = \<lparr>Curve = Some curve, X = x, Y = y, D = Some onChainSk\<rparr>
           in case ed25519_GenerateKey lib r1 of
                (Inl err, r2) \<Rightarrow> (Inl err, r2)
              | (Inr (pub, offChainPriv), r2) \<Rightarrow>
                  (case reader_Read lib r2 32 of
                     ((rd, Some err), r3) \<Rightarrow> (Inl err, r3)
                   | ((rd, None), r3) \<Rightarrow>
                       (let encryptionPriv = copy32 zero32 rd;
                            k = \<lparr>OCRPrivateKey.ID = [], onChainSigning = onChainPriv,
                                  offChainSigning = offChainPriv,
                                  offChainEncryption = encryptionPriv\<rparr>
                        in case MarshalJSON lib k of
                             Inl err \<Rightarrow> (Inl err, r3)
                           | Inr marshalledPrivK \<Rightarrow>
                               (let byteID = sha256_Sum256 lib marshalledPrivK
                                in (Inr (k\<lparr>OCRPrivateKey.ID :=
                                           hex_EncodeToString (Rep_bytes32 byteID)\<rparr>),
                                    r3))))))"

text \<open>\<open>ConfigDiffieHelman\<close> and \<open>PublicKeyConfig\<close>. The second only logs an error of
  \<open>X25519\<close> and copies whatever came back.\<close>

definition ConfigDiffieHelman :: "('r, 'cj) lib \<Rightarrow> OCRPrivateKey \<Rightarrow> bytes32 \<Rightarrow> error + bytes32" where
  "ConfigDiffieHelman lib pk base =
     (case X25519 lib (Rep_bytes32 (offChainEncryption pk)) (Rep_bytes32 base) of
        (p, Some err) \<Rightarrow> Inl err
      | (p, None) \<Rightarrow> Inr (copy32 zero32 p))"

definition PublicKeyConfig :: "('r, 'cj) lib \<Rightarrow> OCRPrivateKey \<Rightarrow> bytes32" where
  "PublicKeyConfig lib pk =
     (case X25519 lib (Rep_bytes32 (offChainEncryption pk)) (Basepoint lib) of
        (rv, err) \<Rightarrow> copy32 zero32 rv)"

definition PublicKeyAddressOnChain :: "('r, 'cj) lib \<Rightarrow> OCRPrivateKey \<Rightarrow> bytes" where
  "PublicKeyAddressOnChain lib pk = onChain_Address lib (onChainSigning pk)"

definition PublicKeyOffChain :: "('r, 'cj) lib \<Rightarrow> OCRPrivateKey \<Rightarrow> bytes" where
  "PublicKeyOffChain lib pk = offChain_PublicKey lib (offChainSigning pk)"

text \<open>\<open>encrypt\<close>, \<open>Encrypt\<close> and \<open>Decrypt\<close>. The times of the encrypted bundle are left
  at their zero value.\<close>

definition encrypt ::
  "('r, 'cj) lib \<Rightarrow> OCRPrivateKey \<Rightarrow> string \<Rightarrow> scryptParams \<Rightarrow> 'r
     \<Rightarrow> (error + EncryptedOCRPrivateKey) \<times> 'r" where
  "encrypt lib pk auth params reader =
     (case MarshalJSON lib pk of
        Inl err \<Rightarrow> (Inl err, reader)
      | Inr marshalledPrivK \<Rightarrow>
          (case EncryptDataV3 lib marshalledPrivK (string_to_bytes (adulteratedPassword auth))
                  (N params) (P params) reader of
             (Inl err, r1) \<Rightarrow> (Inl (Wrapf err ''could not encrypt ocr key''), r1)
           | (Inr cryptoJSON, r1) \<Rightarrow>
               (case json_Marshal_cj lib cryptoJSON of
                  Inl err \<Rightarrow> (Inl (Wrapf err ''could not encode cryptoJSON''), r1)
                | Inr encryptedPrivKeys \<Rightarrow>
                    (Inr \<lparr>EncryptedOCRPrivateKey.ID = OCRPrivateKey.ID pk,
                          OnChainSigningAddress = onChain_Address lib (onChainSigning pk),
                          OffChainPublicKey = offChain_PublicKey lib (offChainSigning pk),
                          EncryptedPrivKeys = encryptedPrivKeys,
                          CreatedAt = 0, UpdatedAt = 0\<rparr>, r1))))"

definition Encrypt ::
  "('r, 'cj) lib \<Rightarrow> OCRPrivateKey \<Rightarrow> string \<Rightarrow> 'r \<Rightarrow> (error + EncryptedOCRPrivateKey) \<times> 'r" where
  "Encrypt lib pk auth reader = encrypt lib pk auth (defaultScryptParams lib) reader"

definition Decrypt :: "('r, 'cj) lib \<Rightarrow> EncryptedOCRPrivateKey \<Rightarrow> string \<Rightarrow> error + OCRPrivateKey" where
  "Decrypt lib encKey auth =
     (case json_Unmarshal_cj lib (EncryptedPrivKeys encKey) of
        Inl err \<Rightarrow> Inl (Wrapf err ''invalid cryptoJSON for OCR key'')
      | Inr cryptoJSON \<Rightarrow>
          (case DecryptDataV3 lib cryptoJSON (adulteratedPassword auth) of
             Inl err \<Rightarrow> Inl (Wrapf err ''could not decrypt OCR key'')
           | Inr marshalledPrivK \<Rightarrow>
               (case UnmarshalJSON lib [] marshalledPrivK of
                  Inl err \<Rightarrow> Inl (Wrapf err ''could not unmarshal OCR key'')
                | Inr pk \<Rightarrow> Inr (pk\<lparr>OCRPrivateKey.ID := EncryptedOCRPrivateKey.ID encKey\<rparr>))))"

text \<open>\<open>String\<close> and \<open>GoStringer\<close>: \<open>fmt.Sprintf\<close> with two \<open>%s\<close> verbs.\<close>

definition String :: "('r, 'cj) lib \<Rightarrow> OCRPrivateKey \<Rightarrow> string" where
  "String lib pk =
     ''OCRPrivateKey{PublicKeyAddressOnChain: ''
       @ fmt_Address lib (PublicKeyAddressOnChain lib pk)
       @ '', PublicKeyOffChain: ''
       @ fmt_OffChainPublicKey lib (PublicKeyOffChain lib pk)
       @ ''}''"

definition GoStringer :: "('r, 'cj) lib \<Rightarrow> OCRPrivateKey \<Rightarrow> string" where
  "GoStringer lib pk = String lib pk"

subsection \<open>What the theorems ask of the libraries\<close>

text \<open>\<open>json.Unmarshal\<close> reads back what \<open>json.Marshal\<close> wrote, at the two types the
  source marshals.\<close>

definition json_raw_roundtrip :: "('r, 'cj) lib \<Rightarrow> bool" where
  "json_raw_roundtrip lib \<longleftrightarrow>
     (\<forall>d b. json_Marshal_raw lib d = Inr b \<longrightarrow> json_Unmarshal_raw lib b = Inr d)"

definition json_cj_roundtrip :: "('r, 'cj) lib \<Rightarrow> bool" where
  "json_cj_roundtrip lib \<longleftrightarrow>
     (\<forall>cj b. json_Marshal_cj lib cj = Inr b \<longrightarrow> json_Unmarshal_cj lib b = Inr cj)"

text \<open>\<open>keystore.DecryptDataV3\<close> returns the data \<open>EncryptDataV3\<close> was given when the
  key is the same.\<close>

definition keystore_roundtrip :: "('r, 'cj) lib \<Rightarrow> bool" where
  "keystore_roundtrip lib \<longleftrightarrow>
     (\<forall>data auth n p r cj r'.
        EncryptDataV3 lib data (string_to_bytes auth) n p r = (Inr cj, r')
          \<longrightarrow> DecryptDataV3 lib cj auth = Inr data)"

text \<open>What the keystore does with a password: scrypt keys an HMAC-SHA256 with it, and HMAC
  pads a key of at most 64 bytes with zero bytes to 64, and replaces a longer one by its
  hash first. A password and the same password followed by zero bytes are therefore one
  key to the keystore. \<open>h\<close> is the hash.\<close>

definition hmac_key_block :: "(bytes \<Rightarrow> bytes32) \<Rightarrow> bytes \<Rightarrow> bytes" where
  "hmac_key_block h key =
     (if length key \<le> 64 then key @ replicate (64 - length key) 0
      else Rep_bytes32 (h key) @ replicate 32 0)"

text \<open>\<open>same\<close> relates the keys the keystore does not tell apart. The keystore answers
  \<open>ErrDecrypt\<close> to every key that is not the same, in this sense, as the one it encrypted
  under.\<close>

definition keystore_rejects :: "('r, 'cj) lib \<Rightarrow> (bytes \<Rightarrow> bytes \<Rightarrow> bool) \<Rightarrow> bool" where
  "keystore_rejects lib same \<longleftrightarrow>
     (\<forall>data key n p r cj r' auth.
        EncryptDataV3 lib data key n p r = (Inr cj, r') \<and> \<not> same (string_to_bytes auth) key
          \<longrightarrow> DecryptDataV3 lib cj auth = Inl ErrDecrypt)"



text \<open>The Diffie-Hellman law of \<open>X25519\<close>: for two 32-byte scalars, both public points
  are computed without error and are 32 bytes long, and each scalar applied to the other's
  public point gives, without error, the same value of 32 bytes.\<close>

definition x25519_agreement :: "('r, 'cj) lib \<Rightarrow> bool" where
  "x25519_agreement lib \<longleftrightarrow>
     (\<forall>a b. length a = 32 \<and> length b = 32 \<longrightarrow>
        (\<exists>pa pb s. X25519 lib a (Basepoint lib) = (pa, None) \<and> length pa = 32
           \<and> X25519 lib b (Basepoint lib) = (pb, None) \<and> length pb = 32
           \<and> X25519 lib a pb = (s, None) \<and> X25519 lib b pa = (s, None)
           \<and> length s = 32))"

text \<open>\<open>X25519\<close> reports an error for every point of the class \<open>bad\<close> (for
  \<open>curve25519\<close>, the points of low order), whatever the scalar.\<close>

definition x25519_rejects :: "('r, 'cj) lib \<Rightarrow> (bytes \<Rightarrow> bool) \<Rightarrow> bool" where
  "x25519_rejects lib bad \<longleftrightarrow>
     (\<forall>scalar point. bad point \<longrightarrow> (\<exists>q err. X25519 lib scalar point = (q, Some err)))"

subsection \<open>Test doubles for the libraries\<close>

text \<open>
  A small executable instance of \<open>lib\<close>, on which the functions of the source run on
  concrete inputs. It keeps the interfaces and the error behaviour of the Go libraries
  and replaces their mathematics by toys: the reader is a tape of bytes, integers are
  one byte wide, the curve has 251 points, the hash pads or truncates, the cipher keeps
  the HMAC key block of its key next to the data.
\<close>

definition be_to_nat :: "bytes \<Rightarrow> nat" where
  "be_to_nat bs = foldl (\<lambda>a b. a * 256 + unat b) 0 bs"

definition test_rand_Int :: "bytes \<Rightarrow> int \<Rightarrow> (error + int) \<times> bytes" where
  "test_rand_Int r m = (case r of [] \<Rightarrow> (Inl (Err ''EOF''), [])
                        | b # r' \<Rightarrow> (Inr (uint b mod m), r'))"

definition test_reader_Read :: "bytes \<Rightarrow> nat \<Rightarrow> (bytes \<times> error option) \<times> bytes" where
  "test_reader_Read r n = (if r = [] then (([], Some (Err ''EOF'')), r)
                           else ((take n r, None), drop n r))"

definition test_ScalarBaseMult :: "bytes \<Rightarrow> int option \<times> int option" where
  "test_ScalarBaseMult k =
     (let n = int (be_to_nat k)
      in if n mod 251 = 0 then (None, None) else (Some (2 * n mod 251), Some (3 * n mod 251)))"

definition test_ed25519_GenerateKey :: "bytes \<Rightarrow> (error + bytes \<times> bytes) \<times> bytes" where
  "test_ed25519_GenerateKey r =
     (if length r < 32 then (Inl (Err ''EOF''), r)
      else (Inr (take 32 r, take 32 r @ take 32 r), drop 32 r))"

definition test_Basepoint :: bytes where
  "test_Basepoint = 9 # replicate 31 0"

definition test_X25519 :: "bytes \<Rightarrow> bytes \<Rightarrow> bytes \<times> error option" where
  "test_X25519 scalar point =
     (if length scalar \<noteq> 32 then ([], Some (Err ''bad scalar length''))
      else if length point \<noteq> 32 then ([], Some (Err ''bad point length''))
      else if hd point = 0 then ([], Some (Err ''bad input point: low order point''))
      else (hd point # map2 (+) (tl scalar) (tl point), None))"

definition test_sha256_Sum256 :: "bytes \<Rightarrow> bytes32" where
  "test_sha256_Sum256 b = copy32 zero32 b"

definition test_json_Marshal_raw :: "ocrPrivateKeyRawData \<Rightarrow> error + bytes" where
  "test_json_Marshal_raw d =
     (if 0 \<le> EcdsaX d \<and> EcdsaX d < 256 \<and> 0 \<le> EcdsaY d \<and> EcdsaY d < 256
         \<and> 0 \<le> EcdsaD d \<and> EcdsaD d < 256
      then Inr ([word_of_int (EcdsaX d), word_of_int (EcdsaY d), word_of_int (EcdsaD d)]
                 @ Rep_bytes32 (OffChainEncryption d) @ Ed25519PrivKey d)
      else Inl (Err ''json: unsupported value''))"

definition test_json_Unmarshal_raw :: "bytes \<Rightarrow> error + ocrPrivateKeyRawData" where
  "test_json_Unmarshal_raw b =
     (if length b < 35 then Inl (Err ''unexpected end of JSON input'')
      else Inr \<lparr>EcdsaX = uint (b ! 0), EcdsaY = uint (b ! 1), EcdsaD = uint (b ! 2),
                Ed25519PrivKey = drop 35 b,
                OffChainEncryption = copy32 zero32 (take 32 (drop 3 b))\<rparr>)"

definition test_json_Marshal_cj :: "bytes \<times> bytes \<Rightarrow> error + bytes" where
  "test_json_Marshal_cj cj =
     (if length (fst cj) < 256 then Inr (of_nat (length (fst cj)) # fst cj @ snd cj)
      else Inl (Err ''json: unsupported value''))"

definition test_json_Unmarshal_cj :: "bytes \<Rightarrow> error + bytes \<times> bytes" where
  "test_json_Unmarshal_cj b =
     (case b of [] \<Rightarrow> Inl (Err ''unexpected end of JSON input'')
      | n # rest \<Rightarrow>
          if length rest < unat n then Inl (Err ''unexpected end of JSON input'')
          else Inr (take (unat n) rest, drop (unat n) rest))"

definition test_key_block :: "bytes \<Rightarrow> bytes" where
  "test_key_block key = hmac_key_block test_sha256_Sum256 key"

definition test_EncryptDataV3 ::
  "bytes \<Rightarrow> bytes \<Rightarrow> int \<Rightarrow> int \<Rightarrow> bytes \<Rightarrow> (error + bytes \<times> bytes) \<times> bytes" where
  "test_EncryptDataV3 data key n p r = (Inr (test_key_block key, data), r)"

definition test_DecryptDataV3 :: "bytes \<times> bytes \<Rightarrow> string \<Rightarrow> error + bytes" where
  "test_DecryptDataV3 cj auth =
     (if test_key_block (string_to_bytes auth) = fst cj then Inr (snd cj) else Inl ErrDecrypt)"

definition test_Address :: "onChainPrivateKey \<Rightarrow> bytes" where
  "test_Address k = (case (X k, Y k) of
                       (Some x, Some y) \<Rightarrow> [word_of_int x, word_of_int y]
                     | _ \<Rightarrow> [])"

definition test_PublicKey :: "offChainPrivateKey \<Rightarrow> bytes" where
  "test_PublicKey k = drop 32 k"

definition test_lib :: "(bytes, bytes \<times> bytes) lib" where
  "test_lib =
     \<lparr>rand_Int = test_rand_Int, reader_Read = test_reader_Read, S256_N = 251,
      ScalarBaseMult = test_ScalarBaseMult, ed25519_GenerateKey = test_ed25519_GenerateKey,
      X25519 = test_X25519, Basepoint = test_Basepoint, sha256_Sum256 = test_sha256_Sum256,
      json_Marshal_raw = test_json_Marshal_raw, json_Unmarshal_raw = test_json_Unmarshal_raw,
      json_Marshal_cj = test_json_Marshal_cj, json_Unmarshal_cj = test_json_Unmarshal_cj,
      EncryptDataV3 = test_EncryptDataV3, DecryptDataV3 = test_DecryptDataV3,
      StandardScryptN = 262144, StandardScryptP = 1,
      onChain_Address = test_Address, offChain_PublicKey = test_PublicKey,
      fmt_Address = (\<lambda>a. ''0x'' @ hex_EncodeToString a),
      fmt_OffChainPublicKey = hex_EncodeToString\<rparr>"

subsection \<open>Test inputs\<close>

text \<open>A tape of 65 bytes for the reader, the bundle \<open>NewOCRPrivateKey\<close> makes of it on the
  test doubles, that bundle encrypted under the password \<open>pw\<close>, and decrypted again;
  the container with another key in it, and the one made under the password itself.\<close>

definition test_seed :: bytes where
  "test_seed = [1, 2, 3, 4, 5, 6, 7, 8, 9, 10, 11, 12, 13, 14, 15, 16,
                17, 18, 19, 20, 21, 22, 23, 24, 25, 26, 27, 28, 29, 30, 31, 32]"

definition test_scalar :: bytes where
  "test_scalar = [101, 102, 103, 104, 105, 106, 107, 108, 109, 110, 111, 112, 113, 114, 115, 116,
                  117, 118, 119, 120, 121, 122, 123, 124, 125, 126, 127, 128, 129, 130, 131, 132]"

definition test_tape :: bytes where
  "test_tape = 5 # test_seed @ test_scalar"

definition test_key :: OCRPrivateKey where
  "test_key =
     \<lparr>OCRPrivateKey.ID = ''0a0f0565666768696a6b6c6d6e6f707172737475767778797a7b7c7d7e7f8081'',
      onChainSigning = \<lparr>Curve = Some curve, X = Some 10, Y = Some 15, D = Some 5\<rparr>,
      offChainSigning = test_seed @ test_seed,
      offChainEncryption = copy32 zero32 test_scalar\<rparr>"

definition test_decrypted :: OCRPrivateKey where
  "test_decrypted = test_key\<lparr>onChainSigning := \<lparr>Curve = None, X = Some 10, Y = Some 15, D = Some 5\<rparr>\<rparr>"

definition test_container :: bytes where
  "test_container =
     64 # test_key_block (string_to_bytes ''ocrkeypw'')
       @ 10 # 15 # 5 # test_scalar @ test_seed @ test_seed"

definition test_encrypted :: EncryptedOCRPrivateKey where
  "test_encrypted =
     \<lparr>EncryptedOCRPrivateKey.ID = OCRPrivateKey.ID test_key,
      OnChainSigningAddress = [10, 15], OffChainPublicKey = test_seed,
      EncryptedPrivKeys = test_container, CreatedAt = 0, UpdatedAt = 0\<rparr>"

definition test_key2 :: OCRPrivateKey where
  "test_key2 =
     \<lparr>OCRPrivateKey.ID = ''another id'',
      onChainSigning = \<lparr>Curve = None, X = Some 10, Y = Some 15, D = Some 77\<rparr>,
      offChainSigning = test_scalar @ test_seed,
      offChainEncryption = copy32 zero32 test_seed\<rparr>"

definition test_key_spelling :: OCRPrivateKey where
  "test_key_spelling =
     \<lparr>OCRPrivateKey.ID = ''spelling'',
      onChainSigning = \<lparr>Curve = Some curve, X = Some 10, Y = Some 15, D = Some 255\<rparr>,
      offChainSigning = test_seed @ test_seed,
      offChainEncryption = copy32 zero32 (string_to_bytes ''OCRPrivateKey{PublicKeyAddressOn'')\<rparr>"

definition test_tampered_container :: bytes where
  "test_tampered_container =
     64 # test_key_block (string_to_bytes ''ocrkeypx'')
       @ 10 # 15 # 5 # test_scalar @ test_seed @ test_seed"


section \<open>Properties\<close>

subsection \<open>Arrays, strings and hex\<close>

lemma length_Rep_bytes32: "length (Rep_bytes32 a) = 32"
  using Rep_bytes32 [of a] by simp

lemma Rep_copy32_zero32: "length bs = 32 \<Longrightarrow> Rep_bytes32 (copy32 zero32 bs) = bs"
  by (simp add: copy32.rep_eq zero32.rep_eq copy_def)

lemma copy32_zero32_Rep: "copy32 zero32 (Rep_bytes32 a) = a"
  by (simp add: Rep_bytes32_inject [symmetric] Rep_copy32_zero32 length_Rep_bytes32)

lemma unat_of_char: "unat (of_char c :: byte) = of_char c"
proof -
  have "(of_char c :: byte) = of_nat (of_char c)"
    by (simp add: of_nat_of_char)
  then show ?thesis
    by (simp add: unat_of_nat)
qed

lemma string_to_bytes_inj: "string_to_bytes s = string_to_bytes t \<Longrightarrow> s = t"
proof -
  assume "string_to_bytes s = string_to_bytes t"
  then have "map unat (string_to_bytes s) = map unat (string_to_bytes t)" by simp
  then have "map (of_char :: char \<Rightarrow> nat) s = map of_char t"
    by (simp add: string_to_bytes_def unat_of_char comp_def)
  then show "s = t"
    by (simp add: inj_map_eq_map inj_of_char)
qed

lemma length_string_to_bytes: "length (string_to_bytes s) = length s"
  by (simp add: string_to_bytes_def)

lemma adulteratedPassword_inj:
  "adulteratedPassword a = adulteratedPassword b \<longleftrightarrow> a = b"
  by (simp add: adulteratedPassword_def)

lemma adulteratedPassword_neq_raw: "string_to_bytes (adulteratedPassword a) \<noteq> string_to_bytes a"
proof
  assume "string_to_bytes (adulteratedPassword a) = string_to_bytes a"
  then have "length (string_to_bytes (adulteratedPassword a)) = length (string_to_bytes a)"
    by simp
  then show False
    by (simp add: length_string_to_bytes adulteratedPassword_def)
qed

lemma adulteratedPassword_bytes_inj:
  assumes "string_to_bytes (adulteratedPassword a) = string_to_bytes (adulteratedPassword b)"
  shows "a = b"
proof -
  from assms have "adulteratedPassword a = adulteratedPassword b"
    by (rule string_to_bytes_inj)
  then show ?thesis
    by (simp add: adulteratedPassword_inj)
qed





subsection \<open>The HMAC key block\<close>

lemma length_hmac_key_block: "length (hmac_key_block h key) = 64"
  by (simp add: hmac_key_block_def length_Rep_bytes32)

lemma hmac_key_block_append_zeros:
  assumes "length key + n \<le> 64"
  shows "hmac_key_block h (key @ replicate n 0) = hmac_key_block h key"
proof -
  have "replicate n (0 :: byte) @ replicate (64 - (length key + n)) 0
          = replicate (64 - length key) 0"
    using assms by (simp add: replicate_add [symmetric])
  with assms show ?thesis
    by (simp add: hmac_key_block_def)
qed

lemma hmac_key_block_eq_short:
  assumes "length a \<le> length b" and "length b \<le> 64"
  shows "hmac_key_block h a = hmac_key_block h b \<longleftrightarrow> b = a @ replicate (length b - length a) 0"
proof -
  have "replicate (64 - length a) (0 :: byte)
          = replicate (length b - length a) 0 @ replicate (64 - length b) 0"
    using assms by (simp add: replicate_add [symmetric])
  then have "hmac_key_block h a = (a @ replicate (length b - length a) 0) @ replicate (64 - length b) 0"
    using assms by (simp add: hmac_key_block_def)
  moreover have "hmac_key_block h b = b @ replicate (64 - length b) 0"
    using assms by (simp add: hmac_key_block_def)
  ultimately show ?thesis
    by (simp only: append_same_eq) auto
qed

lemma of_char_byte_eq_0: "(of_char c :: byte) = 0 \<longleftrightarrow> c = CHR 0x00"
proof
  assume "(of_char c :: byte) = 0"
  then have "unat (of_char c :: byte) = 0" by simp
  then have "(of_char c :: nat) = of_char (CHR 0x00)" by (simp add: unat_of_char)
  then show "c = CHR 0x00" by (rule of_char_eqI)
qed simp


subsection \<open>What the functions of the source return\<close>

lemma MarshalJSON_ID: "MarshalJSON lib (k\<lparr>OCRPrivateKey.ID := i\<rparr>) = MarshalJSON lib k"
  by (simp add: MarshalJSON_def split: option.splits)

lemma NewOCRPrivateKey_Inr:
  assumes "NewOCRPrivateKey lib r = (Inr k, r')"
  obtains sk r1 pub priv r2 rd m where
    "rand_Int lib r (S256_N lib) = (Inr sk, r1)"
    "ed25519_GenerateKey lib r1 = (Inr (pub, priv), r2)"
    "reader_Read lib r2 32 = ((rd, None), r')"
    "MarshalJSON lib k = Inr m"
    "k = \<lparr>OCRPrivateKey.ID = hex_EncodeToString (Rep_bytes32 (sha256_Sum256 lib m)),
          onChainSigning = \<lparr>Curve = Some curve, X = fst (ScalarBaseMult lib (big_Bytes sk)),
             Y = snd (ScalarBaseMult lib (big_Bytes sk)), D = Some sk\<rparr>,
          offChainSigning = priv, offChainEncryption = copy32 zero32 rd\<rparr>"
  using assms
  unfolding NewOCRPrivateKey_def
  by (auto simp: Let_def MarshalJSON_def split: prod.splits sum.splits option.splits)


lemma encrypt_Inr:
  assumes "encrypt lib pk auth params r = (Inr enc, r')"
  obtains m cj where
    "MarshalJSON lib pk = Inr m"
    "EncryptDataV3 lib m (string_to_bytes (adulteratedPassword auth)) (N params) (P params) r
       = (Inr cj, r')"
    "json_Marshal_cj lib cj = Inr (EncryptedPrivKeys enc)"
    "enc = \<lparr>EncryptedOCRPrivateKey.ID = OCRPrivateKey.ID pk,
            OnChainSigningAddress = onChain_Address lib (onChainSigning pk),
            OffChainPublicKey = offChain_PublicKey lib (offChainSigning pk),
            EncryptedPrivKeys = EncryptedPrivKeys enc, CreatedAt = 0, UpdatedAt = 0\<rparr>"
  using assms
  unfolding encrypt_def
  by (auto split: prod.splits sum.splits)

lemma Decrypt_Inr:
  assumes "Decrypt lib encKey auth = Inr pk"
  obtains cj m raw where
    "json_Unmarshal_cj lib (EncryptedPrivKeys encKey) = Inr cj"
    "DecryptDataV3 lib cj (adulteratedPassword auth) = Inr m"
    "json_Unmarshal_raw lib m = Inr raw"
    "pk = \<lparr>OCRPrivateKey.ID = EncryptedOCRPrivateKey.ID encKey,
           onChainSigning = \<lparr>Curve = None, X = Some (EcdsaX raw), Y = Some (EcdsaY raw),
                              D = Some (EcdsaD raw)\<rparr>,
           offChainSigning = Ed25519PrivKey raw,
           offChainEncryption = OffChainEncryption raw\<rparr>"
  using assms
  unfolding Decrypt_def UnmarshalJSON_def
  by (auto simp: Let_def split: sum.splits)

lemma MarshalJSON_Inr:
  assumes "MarshalJSON lib pk = Inr m"
  obtains x y d where
    "X (onChainSigning pk) = Some x" "Y (onChainSigning pk) = Some y" "D (onChainSigning pk) = Some d"
    "json_Marshal_raw lib \<lparr>EcdsaX = x, EcdsaY = y, EcdsaD = d, Ed25519PrivKey = offChainSigning pk,
        OffChainEncryption = offChainEncryption pk\<rparr> = Inr m"
  using assms
  unfolding MarshalJSON_def
  by (auto simp: Let_def split: option.splits)

subsection \<open>Running the source on the test doubles\<close>

lemma length_test_seed: "length test_seed = 32"
  by (simp add: test_seed_def)

lemma length_test_scalar: "length test_scalar = 32"
  by (simp add: test_scalar_def)

lemma big_Bytes_5: "big_Bytes 5 = [5]"
  by (simp add: big_Bytes_def nat_to_be.simps)

lemma test_MarshalJSON: "MarshalJSON test_lib test_key = Inr (10 # 15 # 5 # test_scalar @ test_seed @ test_seed)"
  by (simp add: MarshalJSON_def test_lib_def test_key_def test_json_Marshal_raw_def
      Rep_copy32_zero32 length_test_scalar)

lemma test_hash_hex:
  "hex_EncodeToString (Rep_bytes32 (test_sha256_Sum256 (10 # 15 # 5 # test_scalar @ test_seed @ test_seed)))
     = ''0a0f0565666768696a6b6c6d6e6f707172737475767778797a7b7c7d7e7f8081''"
  by (simp add: test_sha256_Sum256_def copy32.rep_eq zero32.rep_eq copy_def test_scalar_def
      test_seed_def hex_EncodeToString_def hextable_def)

lemma test_NewOCRPrivateKey_rest:
  "NewOCRPrivateKey test_lib (test_tape @ rest) = (Inr test_key, rest)"
proof -
  have 1: "rand_Int test_lib (test_tape @ rest) (S256_N test_lib)
             = (Inr 5, test_seed @ test_scalar @ rest)"
    by (simp add: test_lib_def test_rand_Int_def test_tape_def)
  have 2: "ScalarBaseMult test_lib (big_Bytes 5) = (Some 10, Some 15)"
    by (simp add: test_lib_def test_ScalarBaseMult_def big_Bytes_5 be_to_nat_def)
  have 3: "ed25519_GenerateKey test_lib (test_seed @ test_scalar @ rest)
             = (Inr (test_seed, test_seed @ test_seed), test_scalar @ rest)"
    by (simp add: test_lib_def test_ed25519_GenerateKey_def length_test_seed)
  have 4: "reader_Read test_lib (test_scalar @ rest) 32 = ((test_scalar, None), rest)"
    by (simp add: test_lib_def test_reader_Read_def length_test_scalar) (simp add: test_scalar_def)
  have 5: "MarshalJSON test_lib (test_key\<lparr>OCRPrivateKey.ID := []\<rparr>)
             = Inr (10 # 15 # 5 # test_scalar @ test_seed @ test_seed)"
    by (simp only: MarshalJSON_ID test_MarshalJSON)
  have 6: "sha256_Sum256 test_lib = test_sha256_Sum256"
    by (simp add: test_lib_def)
  have 7: "\<lparr>OCRPrivateKey.ID = [],
           onChainSigning = \<lparr>Curve = Some curve, X = Some 10, Y = Some 15, D = Some 5\<rparr>,
           offChainSigning = test_seed @ test_seed,
           offChainEncryption = copy32 zero32 test_scalar\<rparr>
         = test_key\<lparr>OCRPrivateKey.ID := []\<rparr>"
    by (simp add: test_key_def)
  show ?thesis
    unfolding NewOCRPrivateKey_def 1
    apply (simp add: 2 3 4 Let_def del: append.simps)
    apply (simp only: 7 5 6 sum.case Let_def test_hash_hex)
    apply (simp add: test_key_def)
    done
qed

lemma test_NewOCRPrivateKey: "NewOCRPrivateKey test_lib test_tape = (Inr test_key, [])"
  using test_NewOCRPrivateKey_rest [of "[]"] by simp

lemma test_NewOCRPrivateKey_zero_panics:
  "NewOCRPrivateKey test_lib (0 # test_seed @ test_scalar) = (Inl NilPointerPanic, [])"
proof -
  have 1: "rand_Int test_lib (0 # test_seed @ test_scalar) (S256_N test_lib)
             = (Inr 0, test_seed @ test_scalar)"
    by (simp add: test_lib_def test_rand_Int_def)
  have 2: "ScalarBaseMult test_lib (big_Bytes 0) = (None, None)"
    by (simp add: test_lib_def test_ScalarBaseMult_def big_Bytes_def
        nat_to_be.simps be_to_nat_def)
  have 3: "ed25519_GenerateKey test_lib (test_seed @ test_scalar)
             = (Inr (test_seed, test_seed @ test_seed), test_scalar)"
    by (simp add: test_lib_def test_ed25519_GenerateKey_def length_test_seed)
  have 4: "reader_Read test_lib test_scalar 32 = ((test_scalar, None), [])"
    by (simp add: test_lib_def test_reader_Read_def length_test_scalar)
      (simp add: test_scalar_def)
  show ?thesis
    unfolding NewOCRPrivateKey_def 1
    by (simp add: 2 3 4 Let_def MarshalJSON_def del: append.simps)
qed

lemma length_test_key_block: "length (test_key_block key) = 64"
  by (simp add: test_key_block_def length_hmac_key_block)

lemma test_encrypt: "encrypt test_lib test_key ''pw'' params [] = (Inr test_encrypted, [])"
  unfolding encrypt_def test_MarshalJSON
  by (simp add: test_lib_def test_EncryptDataV3_def test_json_Marshal_cj_def test_encrypted_def
      test_container_def adulteratedPassword_def length_test_key_block
      test_Address_def test_PublicKey_def test_key_def length_test_seed)

lemma test_json_Unmarshal_cj_container:
  "test_json_Unmarshal_cj test_container
     = Inr (test_key_block (string_to_bytes ''ocrkeypw''),
            10 # 15 # 5 # test_scalar @ test_seed @ test_seed)"
  by (simp add: test_json_Unmarshal_cj_def test_container_def length_test_key_block)

lemma test_json_Unmarshal_raw_key:
  "test_json_Unmarshal_raw (10 # 15 # 5 # test_scalar @ test_seed @ test_seed)
     = Inr \<lparr>EcdsaX = 10, EcdsaY = 15, EcdsaD = 5, Ed25519PrivKey = test_seed @ test_seed,
            OffChainEncryption = copy32 zero32 test_scalar\<rparr>"
  by (simp add: test_json_Unmarshal_raw_def length_test_scalar length_test_seed)

lemma test_Decrypt:
  "Decrypt test_lib (test_encrypted\<lparr>EncryptedOCRPrivateKey.ID := i\<rparr>) ''pw''
     = Inr (test_decrypted\<lparr>OCRPrivateKey.ID := i\<rparr>)"
  unfolding Decrypt_def UnmarshalJSON_def
  by (simp add: test_lib_def test_encrypted_def test_json_Unmarshal_cj_container
      test_DecryptDataV3_def adulteratedPassword_def test_json_Unmarshal_raw_key
      test_decrypted_def test_key_def)

lemma string_to_bytes_nul: "string_to_bytes (s @ [CHR 0x00]) = string_to_bytes s @ replicate 1 0"
  by (simp add: string_to_bytes_def)

lemma test_key_block_nul:
  assumes "length s < 64"
  shows "test_key_block (string_to_bytes (s @ [CHR 0x00])) = test_key_block (string_to_bytes s)"
  unfolding test_key_block_def string_to_bytes_nul
  using assms by (intro hmac_key_block_append_zeros) (simp add: length_string_to_bytes)

lemma test_key_block_neq:
  assumes "length a \<le> length b" and "length b \<le> 64"
    and "string_to_bytes b \<noteq> string_to_bytes a @ replicate (length b - length a) 0"
  shows "test_key_block (string_to_bytes b) \<noteq> test_key_block (string_to_bytes a)"
  using assms
    hmac_key_block_eq_short [of "string_to_bytes a" "string_to_bytes b" test_sha256_Sum256]
  by (auto simp: test_key_block_def length_string_to_bytes)

lemma test_Decrypt_nul:
  "Decrypt test_lib test_encrypted (''pw'' @ [CHR 0x00]) = Inr test_decrypted"
proof -
  have "test_key_block (string_to_bytes (''ocrkeypw'' @ [CHR 0x00]))
          = test_key_block (string_to_bytes ''ocrkeypw'')"
    by (rule test_key_block_nul) simp
  then show ?thesis
    unfolding Decrypt_def UnmarshalJSON_def
    by (simp add: test_lib_def test_encrypted_def test_json_Unmarshal_cj_container
        test_DecryptDataV3_def adulteratedPassword_def test_json_Unmarshal_raw_key
        test_decrypted_def test_key_def)
qed

lemma test_Decrypt_wrong:
  "Decrypt test_lib test_encrypted ''wrong''
     = Inl (Wrapf ErrDecrypt ''could not decrypt OCR key'')"
proof -
  have "test_key_block (string_to_bytes ''ocrkeywrong'')
          \<noteq> test_key_block (string_to_bytes ''ocrkeypw'')"
    by (rule test_key_block_neq) (simp_all add: string_to_bytes_def)
  then show ?thesis
    by (simp add: Decrypt_def test_lib_def test_encrypted_def test_json_Unmarshal_cj_container
        test_DecryptDataV3_def adulteratedPassword_def)
qed

subsection \<open>The test doubles keep the contracts\<close>

lemma test_json_raw_roundtrip: "json_raw_roundtrip test_lib"
proof -
  have "test_json_Unmarshal_raw b = Inr d" if "test_json_Marshal_raw d = Inr b" for d b
  proof -
    from that have rng: "0 \<le> EcdsaX d" "EcdsaX d < 256" "0 \<le> EcdsaY d" "EcdsaY d < 256"
        "0 \<le> EcdsaD d" "EcdsaD d < 256"
      and b: "b = word_of_int (EcdsaX d) # word_of_int (EcdsaY d) # word_of_int (EcdsaD d)
                 # Rep_bytes32 (OffChainEncryption d) @ Ed25519PrivKey d"
      by (auto simp: test_json_Marshal_raw_def split: if_splits)
    have u: "uint (word_of_int i :: byte) = i" if "0 \<le> i" "i < 256" for i
      using that by (simp add: uint_word_of_int take_bit_int_eq_self)
    show ?thesis
      by (simp add: b test_json_Unmarshal_raw_def length_Rep_bytes32 u rng copy32_zero32_Rep)
  qed
  then show ?thesis
    by (simp add: json_raw_roundtrip_def test_lib_def)
qed

lemma test_json_cj_roundtrip: "json_cj_roundtrip test_lib"
proof -
  have "test_json_Unmarshal_cj b = Inr cj" if "test_json_Marshal_cj cj = Inr b" for cj b
  proof -
    from that have len: "length (fst cj) < 256"
      and b: "b = of_nat (length (fst cj)) # fst cj @ snd cj"
      by (auto simp: test_json_Marshal_cj_def split: if_splits)
    have "unat (of_nat (length (fst cj)) :: byte) = length (fst cj)"
      using len by (simp add: unat_of_nat)
    then show ?thesis
      by (simp add: b test_json_Unmarshal_cj_def)
  qed
  then show ?thesis
    by (simp add: json_cj_roundtrip_def test_lib_def)
qed

lemma test_keystore_roundtrip: "keystore_roundtrip test_lib"
  by (auto simp: keystore_roundtrip_def test_lib_def test_EncryptDataV3_def test_DecryptDataV3_def)

lemma test_keystore_rejects:
  "keystore_rejects test_lib (\<lambda>a b. test_key_block a = test_key_block b)"
  by (auto simp: keystore_rejects_def test_lib_def test_EncryptDataV3_def test_DecryptDataV3_def)



lemma map2_add_commute:
  "length a = length b \<Longrightarrow> length b = length c
    \<Longrightarrow> map2 (+) a (map2 (+) b c) = map2 (+) b (map2 (+) a (c :: byte list))"
  by (induction a b c rule: list_induct3) (simp_all add: add.left_commute)

lemma map2_add_zeros: "length xs = n \<Longrightarrow> map2 (+) xs (replicate n (0 :: byte)) = xs"
  by (induction xs arbitrary: n) auto

lemma test_x25519_rejects: "x25519_rejects test_lib (\<lambda>point. hd point = 0)"
  by (simp add: x25519_rejects_def test_lib_def test_X25519_def)

lemma test_x25519_agreement: "x25519_agreement test_lib"
proof -
  have "\<exists>pa pb s. test_X25519 a test_Basepoint = (pa, None) \<and> length pa = 32
           \<and> test_X25519 b test_Basepoint = (pb, None) \<and> length pb = 32
           \<and> test_X25519 a pb = (s, None) \<and> test_X25519 b pa = (s, None)
           \<and> length s = 32"
    if "length a = 32" "length b = 32" for a b :: bytes
  proof -
    let ?z = "replicate 31 (0 :: byte)"
    have pa: "test_X25519 a test_Basepoint = (9 # map2 (+) (tl a) ?z, None)"
      using that by (simp add: test_X25519_def test_Basepoint_def)
    have pb: "test_X25519 b test_Basepoint = (9 # map2 (+) (tl b) ?z, None)"
      using that by (simp add: test_X25519_def test_Basepoint_def)
    have c: "map2 (+) (tl a) (map2 (+) (tl b) ?z) = map2 (+) (tl b) (map2 (+) (tl a) ?z)"
      using that by (intro map2_add_commute) simp_all
    have 1: "test_X25519 a (9 # map2 (+) (tl b) ?z) = (9 # map2 (+) (tl a) (map2 (+) (tl b) ?z), None)"
      using that by (simp add: test_X25519_def)
    have 2: "test_X25519 b (9 # map2 (+) (tl a) ?z) = (9 # map2 (+) (tl a) (map2 (+) (tl b) ?z), None)"
      using that by (simp add: test_X25519_def c)
    show ?thesis
      using that by (simp add: pa pb 1 2)
  qed
  then show ?thesis
    by (simp add: x25519_agreement_def test_lib_def)
qed

subsection \<open>Identity derivation\<close>



subsection \<open>The curve field\<close>

text \<open>
  C10. A bundle returned by \<open>NewOCRPrivateKey\<close> has the secp256k1 curve in the \<open>Curve\<close>
  field of its on-chain public key; a bundle built by \<open>UnmarshalJSON\<close>, and so one
  returned by \<open>Decrypt\<close>, has a nil \<open>Curve\<close>. A decrypted bundle is therefore never
  equal, as a structure, to a generated one, also when all scalars and bytes agree.
\<close>

theorem C10_curve_is_set_by_generation_only:
  "(NewOCRPrivateKey lib r = (Inr k, r') \<longrightarrow> Curve (onChainSigning k) = Some curve)
   \<and> (UnmarshalJSON lib id0 b = Inr k1 \<longrightarrow> Curve (onChainSigning k1) = None)
   \<and> (Decrypt lib encKey auth = Inr k2 \<longrightarrow> Curve (onChainSigning k2) = None)
   \<and> (NewOCRPrivateKey lib r = (Inr k, r') \<and> Decrypt lib encKey auth = Inr k2 \<longrightarrow> k2 \<noteq> k)"
proof -
  have gen: "Curve (onChainSigning k) = Some curve" if "NewOCRPrivateKey lib r = (Inr k, r')"
    using that by (rule NewOCRPrivateKey_Inr) simp
  have un: "Curve (onChainSigning k1) = None" if "UnmarshalJSON lib id0 b = Inr k1"
    using that by (auto simp: UnmarshalJSON_def Let_def split: sum.splits)
  have dec: "Curve (onChainSigning k2) = None" if "Decrypt lib encKey auth = Inr k2"
    using that by (rule Decrypt_Inr) simp
  have "k2 \<noteq> k" if "NewOCRPrivateKey lib r = (Inr k, r')" "Decrypt lib encKey auth = Inr k2"
    using gen [OF that(1)] dec [OF that(2)] by auto
  with gen un dec show ?thesis by blast
qed

theorem C10_witness:
  "NewOCRPrivateKey test_lib test_tape = (Inr test_key, [])
   \<and> Curve (onChainSigning test_key) = Some curve
   \<and> UnmarshalJSON test_lib [] (10 # 15 # 5 # test_scalar @ test_seed @ test_seed)
        = Inr (test_decrypted\<lparr>OCRPrivateKey.ID := []\<rparr>)
   \<and> Decrypt test_lib test_encrypted ''pw'' = Inr test_decrypted
   \<and> Curve (onChainSigning test_decrypted) = None
   \<and> test_decrypted \<noteq> test_key
   \<and> X (onChainSigning test_decrypted) = X (onChainSigning test_key)
   \<and> Y (onChainSigning test_decrypted) = Y (onChainSigning test_key)
   \<and> D (onChainSigning test_decrypted) = D (onChainSigning test_key)
   \<and> offChainSigning test_decrypted = offChainSigning test_key
   \<and> offChainEncryption test_decrypted = offChainEncryption test_key"
proof -
  have dec: "Decrypt test_lib test_encrypted ''pw'' = Inr test_decrypted"
    using test_Decrypt [of "EncryptedOCRPrivateKey.ID test_encrypted"]
    by (simp add: test_encrypted_def test_decrypted_def)
  have un: "UnmarshalJSON test_lib [] (10 # 15 # 5 # test_scalar @ test_seed @ test_seed)
        = Inr (test_decrypted\<lparr>OCRPrivateKey.ID := []\<rparr>)"
    by (simp add: UnmarshalJSON_def test_lib_def test_json_Unmarshal_raw_key test_decrypted_def
        test_key_def)
  have fields: "X (onChainSigning test_decrypted) = X (onChainSigning test_key)"
    "Y (onChainSigning test_decrypted) = Y (onChainSigning test_key)"
    "D (onChainSigning test_decrypted) = D (onChainSigning test_key)"
    "offChainSigning test_decrypted = offChainSigning test_key"
    "offChainEncryption test_decrypted = offChainEncryption test_key"
    by (simp_all add: test_decrypted_def test_key_def)
  from C10_curve_is_set_by_generation_only
    [of test_lib test_tape test_key "[]" "[]" "10 # 15 # 5 # test_scalar @ test_seed @ test_seed"
      "test_decrypted\<lparr>OCRPrivateKey.ID := []\<rparr>" test_encrypted "''pw''" test_decrypted]
  show ?thesis
    using test_NewOCRPrivateKey dec un fields by simp
qed

subsection \<open>The identifier is threaded through\<close>

text \<open>
  C8. \<open>encrypt\<close> copies the bundle's \<open>ID\<close>, its on-chain address and its off-chain
  public key into the encrypted bundle. \<open>Decrypt\<close> gives the bundle it returns the \<open>ID\<close>
  of the encrypted bundle, whatever that is: replacing the stored \<open>ID\<close> by any string
  \<open>i\<close> changes the result of \<open>Decrypt\<close> in its \<open>ID\<close> only, which is then \<open>i\<close>.
\<close>

theorem C8_id_is_threaded_through:
  "(encrypt lib pk auth params r = (Inr enc, r') \<longrightarrow>
       EncryptedOCRPrivateKey.ID enc = OCRPrivateKey.ID pk
     \<and> OnChainSigningAddress enc = onChain_Address lib (onChainSigning pk)
     \<and> OffChainPublicKey enc = offChain_PublicKey lib (offChainSigning pk))
   \<and> (Decrypt lib encKey auth' = Inr pk' \<longrightarrow>
         OCRPrivateKey.ID pk' = EncryptedOCRPrivateKey.ID encKey)
   \<and> Decrypt lib (encKey\<lparr>EncryptedOCRPrivateKey.ID := i\<rparr>) auth'
       = (case Decrypt lib encKey auth' of
            Inl err \<Rightarrow> Inl err
          | Inr pk' \<Rightarrow> Inr (pk'\<lparr>OCRPrivateKey.ID := i\<rparr>))"
proof -
  have enc: "EncryptedOCRPrivateKey.ID enc = OCRPrivateKey.ID pk
     \<and> OnChainSigningAddress enc = onChain_Address lib (onChainSigning pk)
     \<and> OffChainPublicKey enc = offChain_PublicKey lib (offChainSigning pk)"
    if "encrypt lib pk auth params r = (Inr enc, r')"
  proof -
    from that obtain m cj where
      "enc = \<lparr>EncryptedOCRPrivateKey.ID = OCRPrivateKey.ID pk,
            OnChainSigningAddress = onChain_Address lib (onChainSigning pk),
            OffChainPublicKey = offChain_PublicKey lib (offChainSigning pk),
            EncryptedPrivKeys = EncryptedPrivKeys enc, CreatedAt = 0, UpdatedAt = 0\<rparr>"
      by (rule encrypt_Inr)
    then show ?thesis
      by (metis EncryptedOCRPrivateKey.select_convs(1,2,3))
  qed
  have dec: "OCRPrivateKey.ID pk' = EncryptedOCRPrivateKey.ID encKey"
    if "Decrypt lib encKey auth' = Inr pk'"
    using that by (rule Decrypt_Inr) simp
  have upd: "Decrypt lib (encKey\<lparr>EncryptedOCRPrivateKey.ID := i\<rparr>) auth'
       = (case Decrypt lib encKey auth' of
            Inl err \<Rightarrow> Inl err
          | Inr pk' \<Rightarrow> Inr (pk'\<lparr>OCRPrivateKey.ID := i\<rparr>))"
    by (simp add: Decrypt_def split: sum.splits)
  from enc dec upd show ?thesis by blast
qed

theorem C8_witness:
  "encrypt test_lib test_key ''pw'' (defaultScryptParams test_lib) [] = (Inr test_encrypted, [])
   \<and> EncryptedOCRPrivateKey.ID test_encrypted = OCRPrivateKey.ID test_key
   \<and> OnChainSigningAddress test_encrypted = onChain_Address test_lib (onChainSigning test_key)
   \<and> OffChainPublicKey test_encrypted = offChain_PublicKey test_lib (offChainSigning test_key)
   \<and> Decrypt test_lib (test_encrypted\<lparr>EncryptedOCRPrivateKey.ID := ''not the hash''\<rparr>) ''pw''
        = Inr (test_decrypted\<lparr>OCRPrivateKey.ID := ''not the hash''\<rparr>)
   \<and> OCRPrivateKey.ID (test_decrypted\<lparr>OCRPrivateKey.ID := ''not the hash''\<rparr>)
        = EncryptedOCRPrivateKey.ID (test_encrypted\<lparr>EncryptedOCRPrivateKey.ID := ''not the hash''\<rparr>)"
  using C8_id_is_threaded_through
    [of test_lib test_key "''pw''" "defaultScryptParams test_lib" "[]" test_encrypted "[]"
      "test_encrypted\<lparr>EncryptedOCRPrivateKey.ID := ''not the hash''\<rparr>" "''pw''"
      "test_decrypted\<lparr>OCRPrivateKey.ID := ''not the hash''\<rparr>" "''x''"]
    test_encrypt [of "defaultScryptParams test_lib"] test_Decrypt [of "''not the hash''"]
  by simp

subsection \<open>Decrypting what was encrypted\<close>

text \<open>What \<open>Decrypt\<close> returns for an encrypted bundle that \<open>encrypt\<close> made under the
  same password, when JSON and the keystore read back what they wrote.\<close>

lemma encrypt_Decrypt:
  assumes raw: "json_raw_roundtrip lib" and cj: "json_cj_roundtrip lib"
    and ks: "keystore_roundtrip lib"
    and enc: "encrypt lib B auth params r = (Inr enc, r')"
  shows "\<exists>x y d. X (onChainSigning B) = Some x \<and> Y (onChainSigning B) = Some y
           \<and> D (onChainSigning B) = Some d
           \<and> Decrypt lib enc auth =
               Inr \<lparr>OCRPrivateKey.ID = OCRPrivateKey.ID B,
                    onChainSigning = \<lparr>Curve = None, X = Some x, Y = Some y, D = Some d\<rparr>,
                    offChainSigning = offChainSigning B,
                    offChainEncryption = offChainEncryption B\<rparr>"
proof -
  from enc obtain m c where
    m: "MarshalJSON lib B = Inr m" and
    e: "EncryptDataV3 lib m (string_to_bytes (adulteratedPassword auth)) (N params) (P params) r
          = (Inr c, r')" and
    j: "json_Marshal_cj lib c = Inr (EncryptedPrivKeys enc)" and
    id: "enc = \<lparr>EncryptedOCRPrivateKey.ID = OCRPrivateKey.ID B,
            OnChainSigningAddress = onChain_Address lib (onChainSigning B),
            OffChainPublicKey = offChain_PublicKey lib (offChainSigning B),
            EncryptedPrivKeys = EncryptedPrivKeys enc, CreatedAt = 0, UpdatedAt = 0\<rparr>"
    by (rule encrypt_Inr)
  from m obtain x y d where
    xyd: "X (onChainSigning B) = Some x" "Y (onChainSigning B) = Some y"
      "D (onChainSigning B) = Some d" and
    jm: "json_Marshal_raw lib \<lparr>EcdsaX = x, EcdsaY = y, EcdsaD = d,
        Ed25519PrivKey = offChainSigning B, OffChainEncryption = offChainEncryption B\<rparr> = Inr m"
    by (rule MarshalJSON_Inr)
  have 1: "json_Unmarshal_cj lib (EncryptedPrivKeys enc) = Inr c"
    using cj j by (simp add: json_cj_roundtrip_def)
  have 2: "DecryptDataV3 lib c (adulteratedPassword auth) = Inr m"
    using ks e unfolding keystore_roundtrip_def by blast
  have 3: "json_Unmarshal_raw lib m = Inr \<lparr>EcdsaX = x, EcdsaY = y, EcdsaD = d,
        Ed25519PrivKey = offChainSigning B, OffChainEncryption = offChainEncryption B\<rparr>"
    using raw jm by (simp add: json_raw_roundtrip_def)
  have 4: "EncryptedOCRPrivateKey.ID enc = OCRPrivateKey.ID B"
    by (subst id) simp
  have "Decrypt lib enc auth =
               Inr \<lparr>OCRPrivateKey.ID = OCRPrivateKey.ID B,
                    onChainSigning = \<lparr>Curve = None, X = Some x, Y = Some y, D = Some d\<rparr>,
                    offChainSigning = offChainSigning B,
                    offChainEncryption = offChainEncryption B\<rparr>"
    by (simp add: Decrypt_def UnmarshalJSON_def 1 2 3 4)
  with xyd show ?thesis by blast
qed

text \<open>
  C1. For every bundle \<open>B\<close> (those of \<open>NewOCRPrivateKey\<close> among them) and every password,
  if \<open>Encrypt\<close> returns an encrypted bundle then \<open>Decrypt\<close> of it under the same
  password succeeds, and the bundle it returns has the \<open>ID\<close> of \<open>B\<close>, its on-chain
  scalar \<open>D\<close> and point \<open>X\<close>, \<open>Y\<close>, its Ed25519 private key and its curve25519
  scalar, and so the same exchange public key and the same shared point with every peer.
  The libraries are asked to read back what they wrote.
\<close>

theorem C1_decrypt_of_encrypt_gives_the_keys_back:
  assumes "json_raw_roundtrip lib" and "json_cj_roundtrip lib" and "keystore_roundtrip lib"
    and "Encrypt lib B auth r = (Inr enc, r')"
  shows "\<exists>B'. Decrypt lib enc auth = Inr B'
           \<and> OCRPrivateKey.ID B' = OCRPrivateKey.ID B
           \<and> D (onChainSigning B') = D (onChainSigning B)
           \<and> X (onChainSigning B') = X (onChainSigning B)
           \<and> Y (onChainSigning B') = Y (onChainSigning B)
           \<and> offChainSigning B' = offChainSigning B
           \<and> offChainEncryption B' = offChainEncryption B
           \<and> PublicKeyConfig lib B' = PublicKeyConfig lib B
           \<and> (\<forall>base. ConfigDiffieHelman lib B' base = ConfigDiffieHelman lib B base)"
proof -
  from assms(4) have "encrypt lib B auth (defaultScryptParams lib) r = (Inr enc, r')"
    by (simp add: Encrypt_def)
  from encrypt_Decrypt [OF assms(1-3) this]
  show ?thesis by (auto simp: PublicKeyConfig_def ConfigDiffieHelman_def)
qed

theorem C1_witness:
  "json_raw_roundtrip test_lib \<and> json_cj_roundtrip test_lib \<and> keystore_roundtrip test_lib
   \<and> NewOCRPrivateKey test_lib test_tape = (Inr test_key, [])
   \<and> Encrypt test_lib test_key ''pw'' [] = (Inr test_encrypted, [])
   \<and> (\<exists>B'. Decrypt test_lib test_encrypted ''pw'' = Inr B'
           \<and> OCRPrivateKey.ID B' = OCRPrivateKey.ID test_key
           \<and> D (onChainSigning B') = D (onChainSigning test_key)
           \<and> X (onChainSigning B') = X (onChainSigning test_key)
           \<and> Y (onChainSigning B') = Y (onChainSigning test_key)
           \<and> offChainSigning B' = offChainSigning test_key
           \<and> offChainEncryption B' = offChainEncryption test_key
           \<and> PublicKeyConfig test_lib B' = PublicKeyConfig test_lib test_key
           \<and> (\<forall>base. ConfigDiffieHelman test_lib B' base
                  = ConfigDiffieHelman test_lib test_key base))"
proof -
  have enc: "Encrypt test_lib test_key ''pw'' [] = (Inr test_encrypted, [])"
    by (simp add: Encrypt_def test_encrypt)
  from C1_decrypt_of_encrypt_gives_the_keys_back
    [OF test_json_raw_roundtrip test_json_cj_roundtrip test_keystore_roundtrip enc]
  show ?thesis
    using test_json_raw_roundtrip test_json_cj_roundtrip test_keystore_roundtrip
      test_NewOCRPrivateKey enc by blast
qed

subsection \<open>A wrong password\<close>

text \<open>
  C2, as the claim states it, fails in both halves. A password that differs from the right
  one need not be refused: the keystore pads its HMAC key with zero bytes, so \<open>pw\<close>
  followed by a zero byte opens what was encrypted under \<open>pw\<close>. And \<open>Decrypt\<close> wraps
  the error of each of its three steps under a message of its own, so a container that does
  not parse as \<open>CryptoJSON\<close> (here an empty one) is told apart from a wrong password.
\<close>

theorem C2_counterexample:
  "''pw'' \<noteq> ''pw'' @ [CHR 0x00]
   \<and> Encrypt test_lib test_key ''pw'' [] = (Inr test_encrypted, [])
   \<and> Decrypt test_lib test_encrypted (''pw'' @ [CHR 0x00]) = Inr test_decrypted
   \<and> Decrypt test_lib test_encrypted ''wrong''
     = Inl (Wrapf ErrDecrypt ''could not decrypt OCR key'')
   \<and> Decrypt test_lib (test_encrypted\<lparr>EncryptedPrivKeys := []\<rparr>) ''pw''
     = Inl (Wrapf (Err ''unexpected end of JSON input'') ''invalid cryptoJSON for OCR key'')
   \<and> Decrypt test_lib (test_encrypted\<lparr>EncryptedPrivKeys := []\<rparr>) ''pw''
     \<noteq> Decrypt test_lib test_encrypted ''wrong''"
proof -
  have 0: "Encrypt test_lib test_key ''pw'' [] = (Inr test_encrypted, [])"
    by (simp add: Encrypt_def test_encrypt)
  have 2: "Decrypt test_lib (test_encrypted\<lparr>EncryptedPrivKeys := []\<rparr>) ''pw''
     = Inl (Wrapf (Err ''unexpected end of JSON input'') ''invalid cryptoJSON for OCR key'')"
    by (simp add: Decrypt_def test_lib_def test_json_Unmarshal_cj_def)
  from 0 2 test_Decrypt_nul test_Decrypt_wrong show ?thesis
    by simp
qed

text \<open>
  C2, as amended. When \<open>Encrypt\<close> made the encrypted bundle under \<open>p1\<close>, and the keystore
  tells the prefixed \<open>p2\<close> apart from the prefixed \<open>p1\<close>, \<open>Decrypt\<close> under \<open>p2\<close> fails
  with the keystore's \<open>ErrDecrypt\<close> wrapped as \<open>could not decrypt OCR key\<close>. Whatever
  container parses and is refused by the keystore with an error, a tampered one as well,
  gives that error under the same wrapper; a container that does not parse gives its error
  under another one, \<open>invalid cryptoJSON for OCR key\<close>.
\<close>

theorem C2_wrong_password_is_a_decryption_error:
  assumes "json_cj_roundtrip lib" and "Encrypt lib B p1 r = (Inr enc, r')"
  shows "(keystore_rejects lib same
            \<and> \<not> same (string_to_bytes (adulteratedPassword p2))
                     (string_to_bytes (adulteratedPassword p1))
          \<longrightarrow> Decrypt lib enc p2 = Inl (Wrapf ErrDecrypt ''could not decrypt OCR key''))
       \<and> (\<forall>encKey auth cj e. json_Unmarshal_cj lib (EncryptedPrivKeys encKey) = Inr cj
              \<and> DecryptDataV3 lib cj (adulteratedPassword auth) = Inl e
              \<longrightarrow> Decrypt lib encKey auth = Inl (Wrapf e ''could not decrypt OCR key''))
       \<and> (\<forall>encKey auth err. json_Unmarshal_cj lib (EncryptedPrivKeys encKey) = Inl err
              \<longrightarrow> Decrypt lib encKey auth = Inl (Wrapf err ''invalid cryptoJSON for OCR key'')
                \<and> (\<forall>e. Decrypt lib encKey auth \<noteq> Inl (Wrapf e ''could not decrypt OCR key'')))"
proof -
  from assms(2) have "encrypt lib B p1 (defaultScryptParams lib) r = (Inr enc, r')"
    by (simp add: Encrypt_def)
  then obtain m c where
    e: "EncryptDataV3 lib m (string_to_bytes (adulteratedPassword p1))
          (N (defaultScryptParams lib)) (P (defaultScryptParams lib)) r = (Inr c, r')" and
    j: "json_Marshal_cj lib c = Inr (EncryptedPrivKeys enc)"
    by (rule encrypt_Inr)
  have 1: "json_Unmarshal_cj lib (EncryptedPrivKeys enc) = Inr c"
    using assms(1) j by (simp add: json_cj_roundtrip_def)
  have wrong: "Decrypt lib enc p2 = Inl (Wrapf ErrDecrypt ''could not decrypt OCR key'')"
    if "keystore_rejects lib same"
      "\<not> same (string_to_bytes (adulteratedPassword p2)) (string_to_bytes (adulteratedPassword p1))"
  proof -
    from that e have "DecryptDataV3 lib c (adulteratedPassword p2) = Inl ErrDecrypt"
      unfolding keystore_rejects_def by blast
    then show ?thesis
      by (simp add: Decrypt_def 1)
  qed
  have passed: "Decrypt lib encKey auth = Inl (Wrapf e ''could not decrypt OCR key'')"
    if "json_Unmarshal_cj lib (EncryptedPrivKeys encKey) = Inr cj"
      "DecryptDataV3 lib cj (adulteratedPassword auth) = Inl e" for encKey auth cj e
    using that by (simp add: Decrypt_def)
  have other: "Decrypt lib encKey auth = Inl (Wrapf err ''invalid cryptoJSON for OCR key'')
                \<and> (\<forall>e. Decrypt lib encKey auth \<noteq> Inl (Wrapf e ''could not decrypt OCR key''))"
    if "json_Unmarshal_cj lib (EncryptedPrivKeys encKey) = Inl err" for encKey auth err
    using that by (simp add: Decrypt_def)
  show ?thesis
    apply (intro conjI allI impI)
    subgoal using wrong by blast
    subgoal using passed by blast
    subgoal using other by blast
    subgoal using other by blast
    done
qed

theorem C2_witness:
  "json_cj_roundtrip test_lib
   \<and> Encrypt test_lib test_key ''pw'' [] = (Inr test_encrypted, [])
   \<and> keystore_rejects test_lib (\<lambda>a b. test_key_block a = test_key_block b)
   \<and> test_key_block (string_to_bytes (adulteratedPassword ''wrong''))
        \<noteq> test_key_block (string_to_bytes (adulteratedPassword ''pw''))
   \<and> Decrypt test_lib test_encrypted ''wrong''
       = Inl (Wrapf ErrDecrypt ''could not decrypt OCR key'')
   \<and> json_Unmarshal_cj test_lib test_tampered_container
       = Inr (test_key_block (string_to_bytes ''ocrkeypx''),
              10 # 15 # 5 # test_scalar @ test_seed @ test_seed)
   \<and> DecryptDataV3 test_lib
         (test_key_block (string_to_bytes ''ocrkeypx''),
          10 # 15 # 5 # test_scalar @ test_seed @ test_seed)
         (adulteratedPassword ''pw'') = Inl ErrDecrypt
   \<and> Decrypt test_lib (test_encrypted\<lparr>EncryptedPrivKeys := test_tampered_container\<rparr>) ''pw''
       = Inl (Wrapf ErrDecrypt ''could not decrypt OCR key'')
   \<and> json_Unmarshal_cj test_lib [] = Inl (Err ''unexpected end of JSON input'')
   \<and> Decrypt test_lib (test_encrypted\<lparr>EncryptedPrivKeys := []\<rparr>) ''pw''
       = Inl (Wrapf (Err ''unexpected end of JSON input'') ''invalid cryptoJSON for OCR key'')"
proof -
  have enc: "Encrypt test_lib test_key ''pw'' [] = (Inr test_encrypted, [])"
    by (simp add: Encrypt_def test_encrypt)
  have "test_key_block (string_to_bytes ''ocrkeywrong'')
          \<noteq> test_key_block (string_to_bytes ''ocrkeypw'')"
    by (rule test_key_block_neq) (simp_all add: string_to_bytes_def)
  then have ne: "\<not> test_key_block (string_to_bytes (adulteratedPassword ''wrong''))
        = test_key_block (string_to_bytes (adulteratedPassword ''pw''))"
    by (simp add: adulteratedPassword_def)
  have u: "json_Unmarshal_cj test_lib
            (EncryptedPrivKeys (test_encrypted\<lparr>EncryptedPrivKeys := test_tampered_container\<rparr>))
       = Inr (test_key_block (string_to_bytes ''ocrkeypx''),
              10 # 15 # 5 # test_scalar @ test_seed @ test_seed)"
    by (simp add: test_lib_def test_json_Unmarshal_cj_def test_tampered_container_def
        length_test_key_block)
  have "test_key_block (string_to_bytes ''ocrkeypw'')
          \<noteq> test_key_block (string_to_bytes ''ocrkeypx'')"
    by (rule test_key_block_neq) (simp_all add: string_to_bytes_def)
  then have d: "DecryptDataV3 test_lib
         (test_key_block (string_to_bytes ''ocrkeypx''),
          10 # 15 # 5 # test_scalar @ test_seed @ test_seed)
         (adulteratedPassword ''pw'') = Inl ErrDecrypt"
    by (simp add: test_lib_def test_DecryptDataV3_def adulteratedPassword_def)
  have e: "json_Unmarshal_cj test_lib
             (EncryptedPrivKeys (test_encrypted\<lparr>EncryptedPrivKeys := []\<rparr>))
       = Inl (Err ''unexpected end of JSON input'')"
    by (simp add: test_lib_def test_json_Unmarshal_cj_def)
  note c2 = C2_wrong_password_is_a_decryption_error
    [OF test_json_cj_roundtrip enc,
      of "\<lambda>a b. test_key_block a = test_key_block b" "''wrong''"]
  have 1: "Decrypt test_lib test_encrypted ''wrong''
       = Inl (Wrapf ErrDecrypt ''could not decrypt OCR key'')"
    using c2 [THEN conjunct1] test_keystore_rejects ne by blast
  have 2: "Decrypt test_lib (test_encrypted\<lparr>EncryptedPrivKeys := test_tampered_container\<rparr>) ''pw''
       = Inl (Wrapf ErrDecrypt ''could not decrypt OCR key'')"
    by (rule c2 [THEN conjunct2, THEN conjunct1, rule_format, OF conjI, OF u d])
  have 3: "Decrypt test_lib (test_encrypted\<lparr>EncryptedPrivKeys := []\<rparr>) ''pw''
       = Inl (Wrapf (Err ''unexpected end of JSON input'') ''invalid cryptoJSON for OCR key'')"
    by (rule c2 [THEN conjunct2, THEN conjunct2, rule_format, OF e, THEN conjunct1])
  from u e have u': "json_Unmarshal_cj test_lib test_tampered_container
       = Inr (test_key_block (string_to_bytes ''ocrkeypx''),
              10 # 15 # 5 # test_scalar @ test_seed @ test_seed)"
    and e': "json_Unmarshal_cj test_lib [] = Inl (Err ''unexpected end of JSON input'')"
    by simp_all
  from test_json_cj_roundtrip enc test_keystore_rejects ne 1 u' d 2 e' 3
  show ?thesis by (intro conjI)
qed

subsection \<open>The password is prefixed\<close>




subsection \<open>Key agreement\<close>

text \<open>
  C5. For every two bundles \<open>A\<close> and \<open>B\<close> (those of \<open>NewOCRPrivateKey\<close> among them),
  \<open>PublicKeyConfig\<close> is \<open>X25519\<close> of the bundle's exchange scalar and the base point,
  and \<open>ConfigDiffieHelman\<close> of \<open>A\<close> on the \<open>PublicKeyConfig\<close> of \<open>B\<close> and of \<open>B\<close> on
  that of \<open>A\<close> both return without error the same 32-byte array: the value \<open>X25519\<close>
  gives for the own scalar and the other's public point. \<open>X25519\<close> is asked to keep the
  Diffie-Hellman law.
\<close>

theorem C5_both_sides_agree_on_the_shared_point:
  assumes "x25519_agreement lib"
  shows "\<exists>pa pb s sp.
           X25519 lib (Rep_bytes32 (offChainEncryption A)) (Basepoint lib) = (pa, None)
         \<and> Rep_bytes32 (PublicKeyConfig lib A) = pa
         \<and> X25519 lib (Rep_bytes32 (offChainEncryption B)) (Basepoint lib) = (pb, None)
         \<and> Rep_bytes32 (PublicKeyConfig lib B) = pb
         \<and> X25519 lib (Rep_bytes32 (offChainEncryption A)) pb = (s, None)
         \<and> X25519 lib (Rep_bytes32 (offChainEncryption B)) pa = (s, None)
         \<and> ConfigDiffieHelman lib A (PublicKeyConfig lib B) = Inr sp
         \<and> ConfigDiffieHelman lib B (PublicKeyConfig lib A) = Inr sp
         \<and> Rep_bytes32 sp = s"
proof -
  let ?a = "Rep_bytes32 (offChainEncryption A)"
  let ?b = "Rep_bytes32 (offChainEncryption B)"
  have "length ?a = 32 \<and> length ?b = 32"
    by (simp add: length_Rep_bytes32)
  with assms obtain pa pb s where
    pa: "X25519 lib ?a (Basepoint lib) = (pa, None)" "length pa = 32" and
    pb: "X25519 lib ?b (Basepoint lib) = (pb, None)" "length pb = 32" and
    ab: "X25519 lib ?a pb = (s, None)" and ba: "X25519 lib ?b pa = (s, None)" and
    s: "length s = 32"
    unfolding x25519_agreement_def by blast
  have A: "Rep_bytes32 (PublicKeyConfig lib A) = pa"
    by (simp add: PublicKeyConfig_def pa Rep_copy32_zero32)
  have B: "Rep_bytes32 (PublicKeyConfig lib B) = pb"
    by (simp add: PublicKeyConfig_def pb Rep_copy32_zero32)
  have 1: "ConfigDiffieHelman lib A (PublicKeyConfig lib B) = Inr (copy32 zero32 s)"
    by (simp add: ConfigDiffieHelman_def B ab)
  have 2: "ConfigDiffieHelman lib B (PublicKeyConfig lib A) = Inr (copy32 zero32 s)"
    by (simp add: ConfigDiffieHelman_def A ba)
  have 3: "Rep_bytes32 (copy32 zero32 s) = s"
    using s by (rule Rep_copy32_zero32)
  from pa(1) A pb(1) B ab ba 1 2 3 show ?thesis by blast
qed

theorem C5_witness:
  "x25519_agreement test_lib
   \<and> ConfigDiffieHelman test_lib test_key (PublicKeyConfig test_lib test_key2)
       = Inr (copy32 zero32 (9 # map2 (+) (tl test_scalar) (tl test_seed)))
   \<and> (\<exists>pa pb s sp.
           X25519 test_lib (Rep_bytes32 (offChainEncryption test_key)) (Basepoint test_lib)
             = (pa, None)
         \<and> Rep_bytes32 (PublicKeyConfig test_lib test_key) = pa
         \<and> X25519 test_lib (Rep_bytes32 (offChainEncryption test_key2)) (Basepoint test_lib)
             = (pb, None)
         \<and> Rep_bytes32 (PublicKeyConfig test_lib test_key2) = pb
         \<and> X25519 test_lib (Rep_bytes32 (offChainEncryption test_key)) pb = (s, None)
         \<and> X25519 test_lib (Rep_bytes32 (offChainEncryption test_key2)) pa = (s, None)
         \<and> ConfigDiffieHelman test_lib test_key (PublicKeyConfig test_lib test_key2) = Inr sp
         \<and> ConfigDiffieHelman test_lib test_key2 (PublicKeyConfig test_lib test_key) = Inr sp
         \<and> Rep_bytes32 sp = s
         \<and> s = 9 # map2 (+) (tl test_scalar) (tl test_seed))"
proof -
  have k: "Rep_bytes32 (offChainEncryption test_key) = test_scalar"
    by (simp add: test_key_def Rep_copy32_zero32 length_test_scalar)
  have pub: "Rep_bytes32 (PublicKeyConfig test_lib test_key2) = 9 # tl test_seed"
    by (simp add: PublicKeyConfig_def test_lib_def test_key2_def Rep_copy32_zero32
        length_test_seed test_X25519_def test_Basepoint_def map2_add_zeros)
  have ok: "X25519 test_lib (Rep_bytes32 (offChainEncryption test_key))
        (Rep_bytes32 (PublicKeyConfig test_lib test_key2))
        = (9 # map2 (+) (tl test_scalar) (tl test_seed), None)"
    unfolding k pub
    by (simp add: test_lib_def test_X25519_def length_test_scalar length_test_seed)
  have dh: "ConfigDiffieHelman test_lib test_key (PublicKeyConfig test_lib test_key2)
        = Inr (copy32 zero32 (9 # map2 (+) (tl test_scalar) (tl test_seed)))"
    by (simp add: ConfigDiffieHelman_def ok)
  from C5_both_sides_agree_on_the_shared_point [OF test_x25519_agreement, of test_key test_key2]
  obtain pa pb s sp where
    c5: "X25519 test_lib (Rep_bytes32 (offChainEncryption test_key)) (Basepoint test_lib)
             = (pa, None)"
      "Rep_bytes32 (PublicKeyConfig test_lib test_key) = pa"
      "X25519 test_lib (Rep_bytes32 (offChainEncryption test_key2)) (Basepoint test_lib)
             = (pb, None)"
      "Rep_bytes32 (PublicKeyConfig test_lib test_key2) = pb"
      "X25519 test_lib (Rep_bytes32 (offChainEncryption test_key)) pb = (s, None)"
      "X25519 test_lib (Rep_bytes32 (offChainEncryption test_key2)) pa = (s, None)"
      "ConfigDiffieHelman test_lib test_key (PublicKeyConfig test_lib test_key2) = Inr sp"
      "ConfigDiffieHelman test_lib test_key2 (PublicKeyConfig test_lib test_key) = Inr sp"
      "Rep_bytes32 sp = s"
    by blast
  from c5(4,5) ok have "s = 9 # map2 (+) (tl test_scalar) (tl test_seed)"
    by simp
  with c5 test_x25519_agreement dh show ?thesis by blast
qed

text \<open>
  C6. When the peer's point is one that \<open>X25519\<close> rejects, as it does the points of low
  order, \<open>ConfigDiffieHelman\<close> returns an error and no array: the error is the one
  \<open>X25519\<close> reported. When it returns an array, \<open>X25519\<close> reported no error and the
  array is a copy of what it returned: nothing is put in its place.
\<close>

theorem C6_an_error_of_X25519_is_returned:
  "(x25519_rejects lib bad \<and> bad (Rep_bytes32 base)
      \<longrightarrow> (\<exists>err. ConfigDiffieHelman lib pk base = Inl err))
   \<and> (X25519 lib (Rep_bytes32 (offChainEncryption pk)) (Rep_bytes32 base) = (p, Some err)
      \<longrightarrow> ConfigDiffieHelman lib pk base = Inl err)
   \<and> (ConfigDiffieHelman lib pk base = Inr s
      \<longrightarrow> (\<exists>q. X25519 lib (Rep_bytes32 (offChainEncryption pk)) (Rep_bytes32 base) = (q, None)
             \<and> s = copy32 zero32 q))"
proof -
  have rejected: "\<exists>err. ConfigDiffieHelman lib pk base = Inl err"
    if "x25519_rejects lib bad" "bad (Rep_bytes32 base)"
  proof -
    from that obtain q e where
      "X25519 lib (Rep_bytes32 (offChainEncryption pk)) (Rep_bytes32 base) = (q, Some e)"
      unfolding x25519_rejects_def by blast
    then have "ConfigDiffieHelman lib pk base = Inl e"
      by (simp add: ConfigDiffieHelman_def)
    then show ?thesis ..
  qed
  have passed: "ConfigDiffieHelman lib pk base = Inl err"
    if "X25519 lib (Rep_bytes32 (offChainEncryption pk)) (Rep_bytes32 base) = (p, Some err)"
    using that by (simp add: ConfigDiffieHelman_def)
  have copied: "\<exists>q. X25519 lib (Rep_bytes32 (offChainEncryption pk)) (Rep_bytes32 base) = (q, None)
             \<and> s = copy32 zero32 q"
    if "ConfigDiffieHelman lib pk base = Inr s"
    using that by (auto simp: ConfigDiffieHelman_def split: prod.splits option.splits)
  from rejected passed copied show ?thesis by blast
qed

theorem C6_witness:
  "x25519_rejects test_lib (\<lambda>point. hd point = 0) \<and> hd (Rep_bytes32 zero32) = 0
   \<and> X25519 test_lib (Rep_bytes32 (offChainEncryption test_key)) (Rep_bytes32 zero32)
     = ([], Some (Err ''bad input point: low order point''))
   \<and> ConfigDiffieHelman test_lib test_key zero32 = Inl (Err ''bad input point: low order point'')
   \<and> ConfigDiffieHelman test_lib test_key (PublicKeyConfig test_lib test_key2)
        = Inr (copy32 zero32 (9 # map2 (+) (tl test_scalar) (tl test_seed)))
   \<and> X25519 test_lib (Rep_bytes32 (offChainEncryption test_key))
        (Rep_bytes32 (PublicKeyConfig test_lib test_key2))
        = (9 # map2 (+) (tl test_scalar) (tl test_seed), None)"
proof -
  have k: "Rep_bytes32 (offChainEncryption test_key) = test_scalar"
    by (simp add: test_key_def Rep_copy32_zero32 length_test_scalar)
  have z: "hd (Rep_bytes32 zero32) = 0"
    by (simp add: zero32.rep_eq)
  have low: "X25519 test_lib (Rep_bytes32 (offChainEncryption test_key)) (Rep_bytes32 zero32)
     = ([], Some (Err ''bad input point: low order point''))"
    by (simp add: k test_lib_def test_X25519_def zero32.rep_eq length_test_scalar)
  have pub: "Rep_bytes32 (PublicKeyConfig test_lib test_key2) = 9 # tl test_seed"
    by (simp add: PublicKeyConfig_def test_lib_def test_key2_def Rep_copy32_zero32
        length_test_seed test_X25519_def test_Basepoint_def map2_add_zeros)
  have ok: "X25519 test_lib (Rep_bytes32 (offChainEncryption test_key))
        (Rep_bytes32 (PublicKeyConfig test_lib test_key2))
        = (9 # map2 (+) (tl test_scalar) (tl test_seed), None)"
    unfolding k pub
    by (simp add: test_lib_def test_X25519_def length_test_scalar length_test_seed)
  have dh: "ConfigDiffieHelman test_lib test_key (PublicKeyConfig test_lib test_key2)
        = Inr (copy32 zero32 (9 # map2 (+) (tl test_scalar) (tl test_seed)))"
    by (simp add: ConfigDiffieHelman_def ok)
  note c6 = C6_an_error_of_X25519_is_returned
    [of test_lib "\<lambda>point. hd point = 0" zero32 test_key "[]"
      "Err ''bad input point: low order point''"]
  from c6 test_x25519_rejects z have "\<exists>err. ConfigDiffieHelman test_lib test_key zero32 = Inl err"
    by blast
  moreover from c6 low
  have "ConfigDiffieHelman test_lib test_key zero32 = Inl (Err ''bad input point: low order point'')"
    by blast
  ultimately show ?thesis
    using test_x25519_rejects z low dh ok by simp
qed

subsection \<open>What the rendering shows\<close>

lemma String_starts:
  "String lib pk = ''OCRPrivateKey{PublicKeyAddressOn'' @ ''Chain: ''
     @ fmt_Address lib (PublicKeyAddressOnChain lib pk) @ '', PublicKeyOffChain: ''
     @ fmt_OffChainPublicKey lib (PublicKeyOffChain lib pk) @ ''}''"
  by (simp add: String_def)

lemma String_has_ff:
  "String lib pk = (''OCRPrivateKey{PublicKeyAddressOnChain: ''
      @ fmt_Address lib (PublicKeyAddressOnChain lib pk) @ '', PublicKeyO'')
     @ ''ff'' @ (''Chain: '' @ fmt_OffChainPublicKey lib (PublicKeyOffChain lib pk) @ ''}'')"
  by (simp add: String_def)

lemma hex_big_Bytes_255: "hex_EncodeToString (big_Bytes 255) = ''ff''"
  by (simp add: big_Bytes_def nat_to_be.simps hex_EncodeToString_def hextable_def)

text \<open>
  C7, as the claim states it, fails: the text around the two values is fixed, and a private
  value can coincide with a piece of it. The bundle \<open>test_key_spelling\<close> has the on-chain
  scalar 255, whose hex encoding \<open>ff\<close> stands in \<open>PublicKeyOffChain\<close>, and an exchange
  scalar whose 32 bytes are the first 32 characters of the rendering.
\<close>

theorem C7_counterexample:
  "D (onChainSigning test_key_spelling) = Some 255
   \<and> sublist (hex_EncodeToString (big_Bytes 255)) (String test_lib test_key_spelling)
   \<and> sublist (Rep_bytes32 (offChainEncryption test_key_spelling))
        (string_to_bytes (String test_lib test_key_spelling))"
proof -
  have d: "D (onChainSigning test_key_spelling) = Some 255"
    by (simp add: test_key_spelling_def)
  have hex: "sublist (hex_EncodeToString (big_Bytes 255)) (String test_lib test_key_spelling)"
    unfolding hex_big_Bytes_255 by (subst String_has_ff) (rule sublist_appendI)
  have "Rep_bytes32 (offChainEncryption test_key_spelling)
          = string_to_bytes ''OCRPrivateKey{PublicKeyAddressOn''"
    by (simp add: test_key_spelling_def Rep_copy32_zero32 length_string_to_bytes)
  moreover have "prefix (string_to_bytes ''OCRPrivateKey{PublicKeyAddressOn'')
                   (string_to_bytes (String test_lib test_key_spelling))"
    unfolding String_starts string_to_bytes_def map_append by (rule prefixI) (rule refl)
  ultimately have raw: "sublist (Rep_bytes32 (offChainEncryption test_key_spelling))
        (string_to_bytes (String test_lib test_key_spelling))"
    by (simp add: prefix_imp_sublist)
  from d hex raw show ?thesis by simp
qed

text \<open>
  C7, as amended. The rendering is a function of the on-chain signing address and the
  off-chain public key only: two bundles with the same address and the same off-chain
  public key have the same \<open>String\<close> and \<open>GoStringer\<close>, whatever their private scalars
  and keys are, and the \<open>ID\<close> and the exchange scalar of a bundle can be replaced by any
  others without changing either.
\<close>

theorem C7_rendering_is_a_function_of_the_public_parts:
  "(PublicKeyAddressOnChain lib pk1 = PublicKeyAddressOnChain lib pk2
      \<and> PublicKeyOffChain lib pk1 = PublicKeyOffChain lib pk2
    \<longrightarrow> String lib pk1 = String lib pk2 \<and> GoStringer lib pk1 = GoStringer lib pk2)
   \<and> String lib (pk1\<lparr>OCRPrivateKey.ID := i, offChainEncryption := e\<rparr>) = String lib pk1
   \<and> GoStringer lib pk1 = String lib pk1"
  by (simp add: GoStringer_def String_def PublicKeyAddressOnChain_def PublicKeyOffChain_def)

theorem C7_witness:
  "PublicKeyAddressOnChain test_lib test_key = PublicKeyAddressOnChain test_lib test_key2
   \<and> PublicKeyOffChain test_lib test_key = PublicKeyOffChain test_lib test_key2
   \<and> D (onChainSigning test_key) \<noteq> D (onChainSigning test_key2)
   \<and> offChainSigning test_key \<noteq> offChainSigning test_key2
   \<and> offChainEncryption test_key \<noteq> offChainEncryption test_key2
   \<and> String test_lib test_key = String test_lib test_key2
   \<and> GoStringer test_lib test_key = GoStringer test_lib test_key2"
proof -
  have a: "PublicKeyAddressOnChain test_lib test_key = PublicKeyAddressOnChain test_lib test_key2"
    by (simp add: PublicKeyAddressOnChain_def test_lib_def test_Address_def test_key_def
        test_key2_def)
  have b: "PublicKeyOffChain test_lib test_key = PublicKeyOffChain test_lib test_key2"
    by (simp add: PublicKeyOffChain_def test_lib_def test_PublicKey_def test_key_def
        test_key2_def length_test_seed length_test_scalar)
  have c: "D (onChainSigning test_key) \<noteq> D (onChainSigning test_key2)"
    by (simp add: test_key_def test_key2_def)
  have d: "offChainSigning test_key \<noteq> offChainSigning test_key2"
    by (simp add: test_key_def test_key2_def test_seed_def test_scalar_def)
  have "Rep_bytes32 (offChainEncryption test_key) \<noteq> Rep_bytes32 (offChainEncryption test_key2)"
    by (simp add: test_key_def test_key2_def Rep_copy32_zero32 length_test_seed
        length_test_scalar) (simp add: test_seed_def test_scalar_def)
  then have e: "offChainEncryption test_key \<noteq> offChainEncryption test_key2"
    by auto
  from C7_rendering_is_a_function_of_the_public_parts [of test_lib test_key test_key2] a b c d e
  show ?thesis by blast
qed

subsection \<open>The range of the on-chain scalar\<close>



end
